theory Spec2Isabelle
  imports Complex_Main "HOL-Library.Log_Nat"
begin

section \<open>JavaScript numbers\<close>

text \<open>
  The extension computes with JavaScript Numbers, that is IEEE-754 binary64 values.
  A finite Number is a rational, so the model represents Numbers by \<open>rat\<close> and makes
  the rounding of every arithmetic operation explicit: \<open>fl\<close> rounds an exact result to
  the nearest value with a 53-bit significand, ties to the even significand. The
  exponent is left unbounded: overflow to Infinity, subnormal results, the sign of
  zero and NaN are outside the model (playback rates and their bounds are small
  positive decimals). Comparisons, \<open>Math.max\<close> and \<open>Math.min\<close> are exact on Numbers
  and are HOL's \<open><\<close>, \<open>max\<close> and \<open>min\<close>.
\<close>

text \<open>Round to the nearest integer, a tie going to the even one.\<close>

definition rne :: "rat \<Rightarrow> int" where
  "rne x = (let f = \<lfloor>x\<rfloor>; r = x - of_int f in
     if r < 1 / 2 then f else if 1 / 2 < r then f + 1 else if even f then f else f + 1)"

text \<open>The binary exponent of a positive rational: \<open>2 powi ilog2 x \<le> x < 2 powi (ilog2 x + 1)\<close>.\<close>

definition ilog2 :: "rat \<Rightarrow> int" where
  "ilog2 x = (if 1 \<le> x then int (floorlog 2 (nat \<lfloor>x\<rfloor>)) - 1
              else - int (floorlog 2 (nat (\<lceil>1 / x\<rceil> - 1))))"

definition fl :: "rat \<Rightarrow> rat" where
  "fl x = (if x = 0 then 0 else
     let a = \<bar>x\<bar>; u = 2 powi (ilog2 a - 52) in sgn x * (of_int (rne (a / u)) * u))"

text \<open>The four operations of the source: the exact result, rounded once.\<close>

definition fadd :: "rat \<Rightarrow> rat \<Rightarrow> rat" where
  "fadd x y = fl (x + y)"

definition fsub :: "rat \<Rightarrow> rat \<Rightarrow> rat" where
  "fsub x y = fl (x - y)"

definition fmul :: "rat \<Rightarrow> rat \<Rightarrow> rat" where
  "fmul x y = fl (x * y)"

definition fdiv :: "rat \<Rightarrow> rat \<Rightarrow> rat" where
  "fdiv x y = fl (x / y)"

text \<open>
  \<open>Math.round\<close> returns the integer nearest to its argument, a tie going towards
  \<open>+\<infinity>\<close>; the result is computed exactly.
\<close>

definition Math_round :: "rat \<Rightarrow> rat" where
  "Math_round x = of_int \<lfloor>x + 1 / 2\<rfloor>"

text \<open>
  The expression \<^verbatim>\<open>Math.round(rate * 100) / 100\<close>, which occurs in \<^verbatim>\<open>setPlaybackRate\<close>
  (content script), in \<^verbatim>\<open>setRate\<close> (popup) and in both \<^verbatim>\<open>formatRate\<close> functions.
\<close>

definition round2 :: "rat \<Rightarrow> rat" where
  "round2 x = fdiv (Math_round (fmul x 100)) 100"

text \<open>
  A Number is a two-decimal value when it is the Number that a literal with two
  decimal digits denotes: the binary64 value nearest to \<open>k / 100\<close> for an integer \<open>k\<close>.
\<close>

definition two_decimal :: "rat \<Rightarrow> bool" where
  "two_decimal x = (\<exists>k :: int. x = fl (of_int k / 100))"

section \<open>Configuration and persisted store\<close>

text \<open>
  \<^verbatim>\<open>DEFAULT_CONFIG\<close> of both scripts. The content script's copy has one more entry,
  \<^verbatim>\<open>decimals: 2\<close>, which no code reads (the rounding uses the literal 100); it is left out.
\<close>

record config =
  minRate :: rat
  maxRate :: rat
  fineIncrement :: rat
  coarseIncrement :: rat
  defaultRate :: rat

definition DEFAULT_CONFIG :: config where
  "DEFAULT_CONFIG = \<lparr> minRate = 1 / 2, maxRate = 3, fineIncrement = fl (1 / 20),
     coarseIncrement = 1 / 4, defaultRate = 1 \<rparr>"

section \<open>The page: video elements, the content script's state, the popup\<close>

text \<open>
  A video element is a mutable object; the content script keeps a reference to one in
  \<^verbatim>\<open>state.currentVideo\<close> while the same object may sit in the document. Elements are
  therefore named by an identifier and live in a store (\<open>heap\<close>). The fields of an
  element are the properties the source reads or writes; the three booleans stand for
  the selectors \<^verbatim>\<open>video.vjs-tech\<close>, \<^verbatim>\<open>[data-purpose="video-player"] video\<close> and
  \<^verbatim>\<open>video[preload="auto"]\<close>.
\<close>

type_synonym vid = nat

record video =
  playbackRate :: rat
  readyState :: nat
  currentTime :: rat
  paused :: bool
  vjs_tech :: bool
  in_video_player :: bool
  preload_auto :: bool
  superlearnerAttached :: bool

datatype log_entry =
    NoVideoFound
  | SpeedSet rat
  | AppliedStoredRate rat

text \<open>
  The host's playback-rate button, as far as \<^verbatim>\<open>updateRateDisplay\<close> looks at it: the child
  nodes of its text element (the first \<^verbatim>\<open>span\<close> inside the button, or the button itself).
  A child is a text node, a \<^verbatim>\<open>SPAN\<close> element or any other node. The text of a text node
  or of a \<^verbatim>\<open>SPAN\<close> is \<open>None\<close> while it is the host's own, and \<open>Some rate\<close> once the
  extension has written \<^verbatim>\<open>formatRate(rate) + 'x'\<close> into it.
\<close>

datatype child_node =
    TextNode "rat option"
  | SpanElement "rat option"
  | OtherNode

text \<open>
  One record holds what the two scripts and the browser share:
  \<^item> \<open>udemy_playback_rate\<close>, \<open>udemy_config\<close>: the entries of \<^verbatim>\<open>chrome.storage.sync\<close>
    (\<open>None\<close>: never written);
  \<^item> \<open>currentVideo\<close>, \<open>config\<close>: the content script's module-level \<^verbatim>\<open>state\<close>;
  \<^item> \<open>heap\<close>, \<open>doc\<close>: the video objects and the identifiers of the video elements that are
    in the document, in tree order;
  \<^item> \<open>rate_button\<close>: the child nodes of the text element of the host's playback-rate
    button (\<open>None\<close>: the page has no such button); \<open>toast\<close>: the rate of the toast on
    screen; \<open>console\<close>: the log;
  \<^item> \<open>currentConfig\<close>, \<open>currentRate\<close>: the popup's module-level variables;
    \<open>tab_on_udemy\<close>: whether the active tab's URL contains \<^verbatim>\<open>udemy.com\<close>, so that the
    popup's message reaches the content script.
\<close>

record world =
  udemy_playback_rate :: "rat option"
  udemy_config :: "config option"
  currentVideo :: "vid option"
  config :: config
  heap :: "vid \<Rightarrow> video"
  doc :: "vid list"
  rate_button :: "child_node list option"
  toast :: "rat option"
  console :: "log_entry list"
  currentConfig :: config
  currentRate :: rat
  tab_on_udemy :: bool

subsection \<open>Storage functions of the content script\<close>

text \<open>
  \<^verbatim>\<open>loadConfig\<close>: \<^verbatim>\<open>state.config = { ...DEFAULT_CONFIG, ...data.udemy_config }\<close>. The popup
  always stores a complete configuration, so the merge yields the stored one.
\<close>

definition loadConfig :: "world \<Rightarrow> world" where
  "loadConfig w = w\<lparr>config := (case udemy_config w of None \<Rightarrow> DEFAULT_CONFIG | Some c \<Rightarrow> c)\<rparr>"

definition savePlaybackRate :: "rat \<Rightarrow> world \<Rightarrow> world" where
  "savePlaybackRate rate w = w\<lparr>udemy_playback_rate := Some rate\<rparr>"

definition getStoredRate :: "world \<Rightarrow> rat" where
  "getStoredRate w =
     (case udemy_playback_rate w of None \<Rightarrow> defaultRate (config w) | Some r \<Rightarrow> r)"

definition log_msg :: "log_entry \<Rightarrow> world \<Rightarrow> world" where
  "log_msg e w = w\<lparr>console := console w @ [e]\<rparr>"

subsection \<open>Video detection\<close>

text \<open>\<^verbatim>\<open>document.querySelector\<close> restricted to video elements: the first match in tree order.\<close>

definition querySelector :: "(video \<Rightarrow> bool) \<Rightarrow> (vid \<Rightarrow> video) \<Rightarrow> vid list \<Rightarrow> vid option" where
  "querySelector sel h videos = find (\<lambda>v. sel (h v)) videos"

definition findVideoElement :: "(vid \<Rightarrow> video) \<Rightarrow> vid list \<Rightarrow> vid option" where
  "findVideoElement h videos =
     (case querySelector vjs_tech h videos of Some v \<Rightarrow> Some v | None \<Rightarrow>
      (case querySelector in_video_player h videos of Some v \<Rightarrow> Some v | None \<Rightarrow>
       (case querySelector preload_auto h videos of Some v \<Rightarrow> Some v | None \<Rightarrow>
        (if length videos = 1 then Some (videos ! 0)
         else (case find (\<lambda>v. 0 < readyState (h v) \<or> 0 < currentTime (h v) \<or> \<not> paused (h v)) videos of
                 Some v \<Rightarrow> Some v
               | None \<Rightarrow> (case videos of [] \<Rightarrow> None | v # _ \<Rightarrow> Some v))))))"

subsection \<open>Video event handlers\<close>

text \<open>
  The \<^verbatim>\<open>ratechange\<close> listener of \<^verbatim>\<open>attachVideoListeners\<close>: it reads the rate, tests a
  condition and then does nothing (the body of the \<^verbatim>\<open>if\<close> is a comment).
\<close>

definition ratechange_listener :: "vid \<Rightarrow> world \<Rightarrow> world" where
  "ratechange_listener v w =
     (let currentRate' = playbackRate (heap w v) in
      if currentRate' \<noteq> 1 \<or>
         (case currentVideo w of None \<Rightarrow> False | Some c \<Rightarrow> playbackRate (heap w c) = 1)
      then w else w)"

text \<open>
  An assignment \<^verbatim>\<open>video.playbackRate = rate\<close>, by the extension or by the host page: the
  property changes and the element's \<^verbatim>\<open>ratechange\<close> event runs the listener if one was
  attached.
\<close>

definition assign_playbackRate :: "vid \<Rightarrow> rat \<Rightarrow> world \<Rightarrow> world" where
  "assign_playbackRate v rate w =
     (let w1 = w\<lparr>heap := (heap w)(v := (heap w v)\<lparr>playbackRate := rate\<rparr>)\<rparr> in
      if superlearnerAttached (heap w1 v) then ratechange_listener v w1 else w1)"

text \<open>
  The loop of \<^verbatim>\<open>updateRateDisplay\<close> over the child nodes: the first child that is a text
  node or a \<^verbatim>\<open>SPAN\<close> gets the new text, and the loop stops there.
\<close>

fun write_first :: "rat \<Rightarrow> child_node list \<Rightarrow> child_node list" where
  "write_first rate [] = []"
| "write_first rate (TextNode t # nodes) = TextNode (Some rate) # nodes"
| "write_first rate (SpanElement t # nodes) = SpanElement (Some rate) # nodes"
| "write_first rate (OtherNode # nodes) = OtherNode # write_first rate nodes"

text \<open>
  \<^verbatim>\<open>updateRateDisplay\<close>: without a button nothing happens; a text element without
  children gets the text as its only child; otherwise the loop above runs.
\<close>

definition updateRateDisplay :: "rat \<Rightarrow> world \<Rightarrow> world" where
  "updateRateDisplay rate w =
     (case rate_button w of
        None \<Rightarrow> w
      | Some childNodes \<Rightarrow>
          if 0 < length childNodes
          then w\<lparr>rate_button := Some (write_first rate childNodes)\<rparr>
          else w\<lparr>rate_button := Some [TextNode (Some rate)]\<rparr>)"

definition showSpeedToast :: "rat \<Rightarrow> world \<Rightarrow> world" where
  "showSpeedToast rate w = w\<lparr>toast := Some rate\<rparr>"

definition applyStoredRate :: "vid \<Rightarrow> world \<Rightarrow> world" where
  "applyStoredRate v w =
     (let rate = getStoredRate w;
          w1 = (if playbackRate (heap w v) \<noteq> rate
                then log_msg (AppliedStoredRate rate) (assign_playbackRate v rate w) else w)
      in updateRateDisplay rate w1)"

definition attachVideoListeners :: "vid \<Rightarrow> world \<Rightarrow> world" where
  "attachVideoListeners v w =
     (if superlearnerAttached (heap w v) then w
      else let w1 = w\<lparr>heap := (heap w)(v := (heap w v)\<lparr>superlearnerAttached := True\<rparr>)\<rparr> in
           if 1 \<le> readyState (heap w1 v) then applyStoredRate v w1 else w1)"

datatype video_event =
    loadedmetadata | loadeddata | canplay | play | playing | ratechange | pause | ended

text \<open>An event raised on element \<open>v\<close>: the listeners registered by \<^verbatim>\<open>attachVideoListeners\<close>.\<close>

definition dispatch :: "video_event \<Rightarrow> vid \<Rightarrow> world \<Rightarrow> world" where
  "dispatch ev v w =
     (if \<not> superlearnerAttached (heap w v) then w
      else if ev \<in> {loadedmetadata, loadeddata, canplay, play, playing} then applyStoredRate v w
      else if ev = ratechange then ratechange_listener v w
      else w)"

subsection \<open>Speed control\<close>

text \<open>
  The first argument of \<^verbatim>\<open>setPlaybackRate\<close> is the string \<^verbatim>\<open>'increase'\<close>, the string
  \<^verbatim>\<open>'decrease'\<close> or a number; the second is an object whose \<^verbatim>\<open>coarse\<close> and \<^verbatim>\<open>wrap\<close>
  entries are read as booleans (absent: false).
\<close>

datatype rate_request = Increase | Decrease | Explicit rat

record options =
  coarse :: bool
  wrap :: bool

definition no_options :: options where
  "no_options = \<lparr> coarse = False, wrap = False \<rparr>"

text \<open>
  The body of \<^verbatim>\<open>if (rate === 'increase' || rate === 'decrease')\<close> in
  \<^verbatim>\<open>setPlaybackRate\<close>: the new rate from the element's current rate.
\<close>

definition directionalRate :: "config \<Rightarrow> options \<Rightarrow> rate_request \<Rightarrow> rat \<Rightarrow> rat" where
  "directionalRate cfg opts rq currentRate' =
     (let increment = (if coarse opts then coarseIncrement cfg else fineIncrement cfg);
          newRate = (if rq = Increase then fadd currentRate' increment
                     else fsub currentRate' increment);
          newRate1 = (if maxRate cfg < newRate
                      then (if wrap opts then minRate cfg else maxRate cfg) else newRate);
          newRate2 = (if newRate1 < minRate cfg
                      then (if wrap opts then maxRate cfg else minRate cfg) else newRate1)
      in round2 newRate2)"

text \<open>The expression \<^verbatim>\<open>state.currentVideo || findVideoElement()\<close>.\<close>

definition currentVideo_or_find :: "world \<Rightarrow> vid option" where
  "currentVideo_or_find w =
     (case currentVideo w of Some v \<Rightarrow> Some v | None \<Rightarrow> findVideoElement (heap w) (doc w))"

definition setPlaybackRate :: "rate_request \<Rightarrow> options \<Rightarrow> world \<Rightarrow> world" where
  "setPlaybackRate rq opts w =
     (case currentVideo_or_find w of
        None \<Rightarrow> log_msg NoVideoFound w
      | Some v \<Rightarrow>
          (let w1 = w\<lparr>currentVideo := Some v\<rparr>;
               rate = (case rq of Explicit r \<Rightarrow> r
                       | _ \<Rightarrow> directionalRate (config w1) opts rq (playbackRate (heap w1 v)));
               w2 = assign_playbackRate v rate w1;
               w3 = savePlaybackRate rate w2;
               w4 = updateRateDisplay rate w3;
               w5 = showSpeedToast rate w4
           in log_msg (SpeedSet rate) w5))"

subsection \<open>Keyboard shortcuts\<close>

record key_event =
  code :: string
  shiftKey :: bool
  ctrlKey :: bool
  altKey :: bool
  targetTag :: string
  isContentEditable :: bool

text \<open>
  Strings are lists of 8-bit characters: key codes are ASCII names, and code units above
  255 are outside the model. \<^verbatim>\<open>parseInt\<close> with no radix: it skips leading white space
  (tab, line feed, vertical tab, form feed, carriage return, space, no-break space),
  reads an optional sign, takes a \<^verbatim>\<open>0x\<close> or \<^verbatim>\<open>0X\<close> prefix as radix 16 and otherwise
  radix 10, and reads the longest run of digits of that radix; whatever follows is
  ignored. Without a digit the result is NaN (\<open>None\<close>). The result is the exact integer;
  the handler only compares it with 1 and 9 and indexes with it.
\<close>

definition is_white_space :: "char \<Rightarrow> bool" where
  "is_white_space c =
     (c \<in> set [CHR 0x09, CHR 0x0A, CHR 0x0B, CHR 0x0C, CHR 0x0D, CHR '' '', CHR 0xA0])"

definition digit_value :: "char \<Rightarrow> nat option" where
  "digit_value c = map_of [(CHR ''0'', 0), (CHR ''1'', 1), (CHR ''2'', 2), (CHR ''3'', 3),
     (CHR ''4'', 4), (CHR ''5'', 5), (CHR ''6'', 6), (CHR ''7'', 7), (CHR ''8'', 8),
     (CHR ''9'', 9), (CHR ''a'', 10), (CHR ''b'', 11), (CHR ''c'', 12), (CHR ''d'', 13),
     (CHR ''e'', 14), (CHR ''f'', 15), (CHR ''A'', 10), (CHR ''B'', 11), (CHR ''C'', 12),
     (CHR ''D'', 13), (CHR ''E'', 14), (CHR ''F'', 15)] c"

definition is_digit :: "nat \<Rightarrow> char \<Rightarrow> bool" where
  "is_digit R c = (case digit_value c of None \<Rightarrow> False | Some d \<Rightarrow> d < R)"

definition digits_value :: "nat \<Rightarrow> string \<Rightarrow> nat" where
  "digits_value R Z =
     foldl (\<lambda>n c. R * n + (case digit_value c of None \<Rightarrow> 0 | Some d \<Rightarrow> d)) 0 Z"

definition parseInt :: "string \<Rightarrow> int option" where
  "parseInt s =
     (let s1 = dropWhile is_white_space s;
          sign = (if take 1 s1 = ''-'' then - 1 else 1);
          s2 = (if take 1 s1 = ''-'' \<or> take 1 s1 = ''+'' then drop 1 s1 else s1);
          hex = (take 2 s2 = ''0x'' \<or> take 2 s2 = ''0X'');
          R = (if hex then 16 else 10);
          s3 = (if hex then drop 2 s2 else s2);
          Z = takeWhile (is_digit R) s3
      in if Z = [] then None else Some (sign * int (digits_value R Z)))"

definition speedMap :: "rat list" where
  "speedMap = [1 / 2, 3 / 4, 1, 5 / 4, 3 / 2, 7 / 4, 2, 5 / 2, 3]"

text \<open>
  The \<^verbatim>\<open>keydown\<close> listener of \<^verbatim>\<open>addKeyboardListeners\<close>: the calls of
  \<^verbatim>\<open>setPlaybackRate\<close> it makes, in order. The five \<^verbatim>\<open>if\<close> statements follow each other
  without \<^verbatim>\<open>else\<close>.
\<close>

definition keydown_calls :: "key_event \<Rightarrow> (rate_request \<times> options) list" where
  "keydown_calls event =
     (if targetTag event = ''INPUT'' \<or> targetTag event = ''TEXTAREA'' \<or> isContentEditable event
      then []
      else
        (if code event = ''ArrowRight'' \<and> shiftKey event \<and> \<not> ctrlKey event \<and> \<not> altKey event
         then [(Increase, \<lparr> coarse = False, wrap = True \<rparr>)] else []) @
        (if code event = ''ArrowLeft'' \<and> shiftKey event \<and> \<not> ctrlKey event \<and> \<not> altKey event
         then [(Decrease, \<lparr> coarse = False, wrap = True \<rparr>)] else []) @
        (if code event = ''ArrowRight'' \<and> shiftKey event \<and> ctrlKey event
         then [(Increase, \<lparr> coarse = True, wrap = False \<rparr>)] else []) @
        (if code event = ''ArrowLeft'' \<and> shiftKey event \<and> ctrlKey event
         then [(Decrease, \<lparr> coarse = True, wrap = False \<rparr>)] else []) @
        (if shiftKey event \<and> take 5 (code event) = ''Digit'' \<and> \<not> ctrlKey event \<and> \<not> altKey event
         then (case parseInt (drop 5 (code event)) of
                 None \<Rightarrow> []
               | Some num \<Rightarrow>
                   if 1 \<le> num \<and> num \<le> 9
                   then (let speed = speedMap ! nat (num - 1) in
                         if speed \<noteq> 0 then [(Explicit speed, no_options)] else [])
                   else [])
         else []))"

definition keydown :: "key_event \<Rightarrow> world \<Rightarrow> world" where
  "keydown event w = foldl (\<lambda>w' (rq, opts). setPlaybackRate rq opts w') w (keydown_calls event)"

subsection \<open>Message handling\<close>

datatype message = SET_RATE rat | GET_RATE | CONFIG_UPDATED

definition onMessage :: "message \<Rightarrow> world \<Rightarrow> world" where
  "onMessage m w =
     (case m of
        SET_RATE rate \<Rightarrow> setPlaybackRate (Explicit rate) no_options w
      | GET_RATE \<Rightarrow> w
      | CONFIG_UPDATED \<Rightarrow> loadConfig w)"

subsection \<open>The popup\<close>

definition updateSpeedDisplay :: "rat \<Rightarrow> world \<Rightarrow> world" where
  "updateSpeedDisplay rate w = w\<lparr>currentRate := rate\<rparr>"

text \<open>
  \<^verbatim>\<open>chrome.tabs.sendMessage\<close> hands the message to the content script of the active
  tab; the model runs the content script's listener at once.
\<close>

definition sendMessage :: "message \<Rightarrow> world \<Rightarrow> world" where
  "sendMessage m w = (if tab_on_udemy w then onMessage m w else w)"

definition setRate :: "rat \<Rightarrow> world \<Rightarrow> world" where
  "setRate rate w =
     (let rate1 = max (minRate (currentConfig w)) (min (maxRate (currentConfig w)) rate);
          rate2 = round2 rate1;
          w1 = w\<lparr>udemy_playback_rate := Some rate2\<rparr>;
          w2 = updateSpeedDisplay rate2 w1
      in sendMessage (SET_RATE rate2) w2)"

definition saveConfig :: "world \<Rightarrow> world" where
  "saveConfig w = sendMessage CONFIG_UPDATED (w\<lparr>udemy_config := Some (currentConfig w)\<rparr>)"

text \<open>The popup's controls: the handlers registered by \<^verbatim>\<open>setupEventListeners\<close>.\<close>

datatype popup_event =
    DecreaseBtn
  | IncreaseBtn
  | SliderInput rat
  | SliderChange rat
  | PresetClick rat
  | MinRateChange rat
  | MaxRateChange rat
  | FineIncrementChange rat
  | CoarseIncrementChange rat
  | KeyArrowRight bool
  | KeyArrowLeft bool

definition popup_event :: "popup_event \<Rightarrow> world \<Rightarrow> world" where
  "popup_event e w =
     (case e of
        DecreaseBtn \<Rightarrow> setRate (fsub (currentRate w) (fineIncrement (currentConfig w))) w
      | IncreaseBtn \<Rightarrow> setRate (fadd (currentRate w) (fineIncrement (currentConfig w))) w
      | SliderInput rate \<Rightarrow> updateSpeedDisplay rate w
      | SliderChange rate \<Rightarrow> setRate rate w
      | PresetClick speed \<Rightarrow> setRate speed w
      | MinRateChange x \<Rightarrow> saveConfig (w\<lparr>currentConfig := (currentConfig w)\<lparr>minRate := x\<rparr>\<rparr>)
      | MaxRateChange x \<Rightarrow> saveConfig (w\<lparr>currentConfig := (currentConfig w)\<lparr>maxRate := x\<rparr>\<rparr>)
      | FineIncrementChange x \<Rightarrow>
          saveConfig (w\<lparr>currentConfig := (currentConfig w)\<lparr>fineIncrement := x\<rparr>\<rparr>)
      | CoarseIncrementChange x \<Rightarrow>
          saveConfig (w\<lparr>currentConfig := (currentConfig w)\<lparr>coarseIncrement := x\<rparr>\<rparr>)
      | KeyArrowRight ctrl \<Rightarrow>
          setRate (fadd (currentRate w)
            (if ctrl then coarseIncrement (currentConfig w) else fineIncrement (currentConfig w))) w
      | KeyArrowLeft ctrl \<Rightarrow>
          setRate (fsub (currentRate w)
            (if ctrl then coarseIncrement (currentConfig w) else fineIncrement (currentConfig w))) w)"

subsection \<open>Concrete pages used in the examples\<close>

definition plain_video :: video where
  "plain_video = \<lparr> playbackRate = 1, readyState = 0, currentTime = 0, paused = True,
     vjs_tech = False, in_video_player = False, preload_auto = False,
     superlearnerAttached = False \<rparr>"

text \<open>A freshly loaded lesson page: one Video.js element, nothing stored yet, popup open.\<close>

definition fresh_world :: world where
  "fresh_world = \<lparr> udemy_playback_rate = None, udemy_config = None, currentVideo = None,
     config = DEFAULT_CONFIG,
     heap = (\<lambda>_. plain_video)(0 := plain_video\<lparr>vjs_tech := True, readyState := 4\<rparr>),
     doc = [0], rate_button = Some [TextNode None], toast = None, console = [],
     currentConfig = DEFAULT_CONFIG, currentRate = 1, tab_on_udemy = True \<rparr>"

definition shift_key :: "string \<Rightarrow> key_event" where
  "shift_key c = \<lparr> code = c, shiftKey = True, ctrlKey = False, altKey = False,
     targetTag = ''BODY'', isContentEditable = False \<rparr>"


text \<open>
  The rate the popup shows and stores after a click on its increase button, as a function
  of the rate shown before: \<^verbatim>\<open>setRate(currentRate + currentConfig.fineIncrement)\<close>.
\<close>

definition increaseBtn_rate :: "config \<Rightarrow> rat \<Rightarrow> rat" where
  "increaseBtn_rate cfg c =
     round2 (max (minRate cfg) (min (maxRate cfg) (fadd c (fineIncrement cfg))))"

text \<open>
  Four video elements: an unmarked one that is playing, one with \<^verbatim>\<open>preload="auto"\<close>, one
  inside the player region and one that carries the Video.js class.
\<close>

definition four_videos :: "vid \<Rightarrow> video" where
  "four_videos = (\<lambda>_. plain_video)
     (0 := plain_video\<lparr>paused := False, readyState := 4, currentTime := 12\<rparr>,
      1 := plain_video\<lparr>preload_auto := True\<rparr>,
      2 := plain_video\<lparr>in_video_player := True\<rparr>,
      3 := plain_video\<lparr>vjs_tech := True\<rparr>)"

text \<open>
  A lesson page with the rate \<open>1.35\<close> in the store: the content script attaches its
  listeners to the video, and the host page then sets the video back to its own rate 1.
\<close>

definition attached_world :: world where
  "attached_world =
     assign_playbackRate 0 1
       (attachVideoListeners 0 (fresh_world\<lparr>udemy_playback_rate := Some (fl (27 / 20))\<rparr>))"

section \<open>Properties of the rounding\<close>




lemma ilog2_bounds:
  assumes "0 < x"
  shows "2 powi (ilog2 x) \<le> x \<and> x < 2 powi (ilog2 x + 1)"
proof (cases "1 \<le> x")
  case True
  define n where "n = nat \<lfloor>x\<rfloor>"
  define b where "b = floorlog 2 n"
  have n1: "1 \<le> n" using True by (simp add: n_def le_nat_iff le_floor_iff)
  then have n0: "0 < n" by simp
  have bb: "2 ^ (b - 1) \<le> n \<and> n < 2 ^ b"
    unfolding b_def using floorlog_bounds [OF n0, of 2] by simp
  have b1: "1 \<le> b" using bb n0 by (cases b) auto
  have e: "ilog2 x = int b - 1" using True by (simp add: ilog2_def b_def n_def)
  have nx: "of_nat n \<le> x" "x < of_nat n + 1"
    using True floor_correct [of x] by (simp_all add: n_def)
  have p1: "(2::rat) powi (int b - 1) = 2 ^ (b - 1)"
    using b1 by (simp add: power_int_def nat_diff_distrib)
  have lo: "(2::rat) ^ (b - 1) \<le> of_nat n"
    using bb by (metis of_nat_le_iff of_nat_numeral of_nat_power)
  have p2: "(2::rat) powi (int b - 1 + 1) = 2 ^ b"
    by (simp add: power_int_def)
  have up: "of_nat n + 1 \<le> (2::rat) ^ b"
  proof -
    have "n + 1 \<le> 2 ^ b" using bb by simp
    then have "of_nat (n + 1) \<le> (of_nat (2 ^ b) :: rat)" by (simp only: of_nat_le_iff)
    then show ?thesis by simp
  qed
  have "(2::rat) powi (ilog2 x) \<le> x"
    unfolding e p1 using lo nx(1) by linarith
  moreover have "x < (2::rat) powi (ilog2 x + 1)"
    unfolding e p2 using up nx(2) by linarith
  ultimately show ?thesis by simp
next
  case False
  then have x1: "x < 1" by simp
  define c where "c = nat (\<lceil>1 / x\<rceil> - 1)"
  define k where "k = floorlog 2 c"
  have inv1: "1 < 1 / x" using assms x1 by simp
  then have c2: "2 \<le> \<lceil>1 / x\<rceil>" by (simp add: le_ceiling_iff)
  then have c0: "0 < c" by (simp add: c_def)
  have kb: "2 ^ (k - 1) \<le> c \<and> c < 2 ^ k"
    unfolding k_def using floorlog_bounds [OF c0, of 2] by simp
  have k1: "1 \<le> k" using kb c0 by (cases k) auto
  have e: "ilog2 x = - int k" using False by (simp add: ilog2_def k_def c_def)
  have z0: "0 \<le> \<lceil>1 / x\<rceil> - 1" using c2 by linarith
  have "of_nat c = (of_int (\<lceil>1 / x\<rceil> - 1) :: rat)"
    unfolding c_def using z0 by (simp only: of_nat_nat)
  then have cc: "of_nat c = (of_int \<lceil>1 / x\<rceil> :: rat) - 1"
    by simp
  have up: "1 / x \<le> 2 ^ k"
  proof -
    have "c + 1 \<le> 2 ^ k" using kb by simp
    then have "of_nat (c + 1) \<le> (of_nat (2 ^ k) :: rat)" by (simp only: of_nat_le_iff)
    then have "of_int \<lceil>1 / x\<rceil> \<le> (2::rat) ^ k" using cc by simp
    moreover have "1 / x \<le> of_int \<lceil>1 / x\<rceil>" by simp
    ultimately show ?thesis by linarith
  qed
  have lo: "2 ^ (k - 1) < 1 / x"
  proof -
    have "(2::rat) ^ (k - 1) \<le> of_nat c"
      using kb by (metis of_nat_le_iff of_nat_numeral of_nat_power)
    moreover have "(of_int \<lceil>1 / x\<rceil> :: rat) - 1 < 1 / x"
      using ceiling_correct [of "1 / x"] by linarith
    ultimately show ?thesis using cc by linarith
  qed
  have p1: "(2::rat) powi (- int k) = 1 / 2 ^ k"
    by (simp add: power_int_def field_simps)
  have p2: "(2::rat) powi (- int k + 1) = 1 / 2 ^ (k - 1)"
    using k1 by (simp add: power_int_def field_simps nat_diff_distrib) 
  have "1 / 2 ^ k \<le> x"
    using up assms by (simp add: field_simps)
  moreover have "x < 1 / 2 ^ (k - 1)"
    using lo assms by (simp add: field_simps)
  ultimately show ?thesis using e p1 p2 by simp
qed


lemma fl_pos:
  assumes "0 < x"
  shows "fl x = of_int (rne (x / 2 powi (ilog2 x - 52))) * 2 powi (ilog2 x - 52)"
  using assms by (simp add: fl_def Let_def)









lemma round2_two_decimal: "two_decimal (round2 x)"
  unfolding two_decimal_def round2_def fdiv_def Math_round_def by blast

section \<open>Rate arithmetic\<close>


text \<open>A step that stays within the bounds is only rounded, with or without wrap.\<close>

lemma directionalRate_inside:
  assumes "minRate cfg \<le> (if rq = Increase
       then fadd cur (if coarse opts then coarseIncrement cfg else fineIncrement cfg)
       else fsub cur (if coarse opts then coarseIncrement cfg else fineIncrement cfg))"
    "(if rq = Increase
       then fadd cur (if coarse opts then coarseIncrement cfg else fineIncrement cfg)
       else fsub cur (if coarse opts then coarseIncrement cfg else fineIncrement cfg))
     \<le> maxRate cfg"
  shows "directionalRate cfg opts rq cur = round2 (if rq = Increase
       then fadd cur (if coarse opts then coarseIncrement cfg else fineIncrement cfg)
       else fsub cur (if coarse opts then coarseIncrement cfg else fineIncrement cfg))"
  using assms by (auto simp: directionalRate_def Let_def)

section \<open>Evaluating the rounding on numerals\<close>

text \<open>
  Once the binade of a value is known, \<open>fl\<close> is one rounding of a scaled numeral, which
  the simplifier computes. The rules \<open>fl_eval\<close> cover the binades that rates, their
  hundredfold and the increments fall into.
\<close>

lemma ilog2_unique:
  assumes "2 powi e \<le> x" "x < 2 powi (e + 1)"
  shows "ilog2 x = e"
proof -
  have "(0::rat) < 2 powi e" by simp
  then have x0: "0 < x" using assms(1) by linarith
  have b: "2 powi (ilog2 x) \<le> x" "x < 2 powi (ilog2 x + 1)"
    using ilog2_bounds [OF x0] by simp_all
  have "(2::rat) powi (ilog2 x) < 2 powi (e + 1)" using b(1) assms(2) by linarith
  then have "ilog2 x \<le> e"
    using power_int_increasing [of "e + 1" "ilog2 x" "2::rat"] by force
  moreover have "(2::rat) powi e < 2 powi (ilog2 x + 1)" using b(2) assms(1) by linarith
  then have "e \<le> ilog2 x"
    using power_int_increasing [of "ilog2 x + 1" e "2::rat"] by force
  ultimately show ?thesis by simp
qed

lemma fl_binade:
  assumes "2 powi e \<le> x" "x < 2 powi (e + 1)"
  shows "fl x = of_int (rne (x / 2 powi (e - 52))) * 2 powi (e - 52)"
proof -
  have "(0::rat) < 2 powi e" by simp
  then have x0: "0 < x" using assms(1) by linarith
  show ?thesis using fl_pos [OF x0] ilog2_unique [OF assms] by simp
qed

lemma floor_rat_numeral [simp]:
  "\<lfloor>(numeral a / numeral b :: rat)\<rfloor> = numeral a div numeral b"
  using floor_divide_of_int_eq [of "numeral a" "numeral b", where ?'a = rat] by simp

lemmas fl_eval =
  fl_binade [of "- 5"] fl_binade [of "- 2"] fl_binade [of "- 1"] fl_binade [of 0]
  fl_binade [of 1] fl_binade [of 5] fl_binade [of 6] fl_binade [of 7] fl_binade [of 8]

lemmas num_eval =
  round2_def fadd_def fsub_def fmul_def fdiv_def Math_round_def rne_def Let_def

lemma fl_1_20: "fl (1 / 20) = 3602879701896397 / 72057594037927936"
  by (simp add: fl_eval rne_def Let_def)

lemma DEFAULT_CONFIG_fields:
  "minRate DEFAULT_CONFIG = 1 / 2"
  "maxRate DEFAULT_CONFIG = 3"
  "fineIncrement DEFAULT_CONFIG = 3602879701896397 / 72057594037927936"
  "coarseIncrement DEFAULT_CONFIG = 1 / 4"
  "defaultRate DEFAULT_CONFIG = 1"
  by (simp_all add: DEFAULT_CONFIG_def fl_1_20)

lemma round2_bounds_default: "round2 3 = 3" "round2 (1 / 2) = 1 / 2"
  by (simp_all add: num_eval fl_eval)

lemma funpow_10: "(f ^^ 10) x = f (f (f (f (f (f (f (f (f (f x)))))))))"
  by (simp add: eval_nat_numeral)

text \<open>
  Ten additions of \<open>0.05\<close> to \<open>1\<close> without the rounding to two decimals drift away from
  \<open>1.5\<close>: the model has the accumulated error that the rounding is there to remove.
\<close>

lemma unrounded_steps_drift:
  "foldl fadd 1 (replicate 10 (fl (1 / 20))) = 3 / 2 + 1 / 2 ^ 51"
  by (simp add: eval_nat_numeral fadd_def fl_eval rne_def Let_def)

lemma fine_increase_default:
  assumes "1 / 2 \<le> fadd cur (3602879701896397 / 72057594037927936)"
    "fadd cur (3602879701896397 / 72057594037927936) \<le> 3"
  shows "directionalRate DEFAULT_CONFIG \<lparr>coarse = False, wrap = True\<rparr> Increase cur =
    round2 (fadd cur (3602879701896397 / 72057594037927936))"
  using assms
    directionalRate_inside [of DEFAULT_CONFIG Increase cur "\<lparr>coarse = False, wrap = True\<rparr>"]
  by (simp add: DEFAULT_CONFIG_fields)

lemma ten_fine_increases:
  "(directionalRate DEFAULT_CONFIG \<lparr>coarse = False, wrap = True\<rparr> Increase ^^ 10) 1 = 3 / 2"
  unfolding funpow_10 by (simp add: fine_increase_default num_eval fl_eval)

lemma increaseBtn_rate_default:
  "increaseBtn_rate DEFAULT_CONFIG c =
     round2 (max (1 / 2) (min 3 (fadd c (3602879701896397 / 72057594037927936))))"
  by (simp add: increaseBtn_rate_def DEFAULT_CONFIG_fields)

lemma ten_popup_increases: "(increaseBtn_rate DEFAULT_CONFIG ^^ 10) 1 = 3 / 2"
  unfolding funpow_10 increaseBtn_rate_default by (simp add: num_eval fl_eval)

section \<open>The operations on the page\<close>

lemma ratechange_listener_id: "ratechange_listener v w = w"
  by (simp add: ratechange_listener_def Let_def)

lemma assign_playbackRate_eq:
  "assign_playbackRate v rate w = w\<lparr>heap := (heap w)(v := (heap w v)\<lparr>playbackRate := rate\<rparr>)\<rparr>"
  by (simp add: assign_playbackRate_def Let_def ratechange_listener_id)

lemma updateRateDisplay_eq:
  "updateRateDisplay rate w =
     w\<lparr>rate_button := map_option
        (\<lambda>nodes. if 0 < length nodes then write_first rate nodes else [TextNode (Some rate)])
        (rate_button w)\<rparr>"
  by (cases "rate_button w") (simp_all add: updateRateDisplay_def)

lemma applyStoredRate_fields:
  "udemy_playback_rate (applyStoredRate v w) = udemy_playback_rate w"
  "playbackRate (heap (applyStoredRate v w) v) = getStoredRate w"
  by (simp_all add: applyStoredRate_def Let_def assign_playbackRate_eq log_msg_def
      updateRateDisplay_eq)

lemma setPlaybackRate_found:
  assumes "currentVideo_or_find w = Some v"
  shows "udemy_playback_rate (setPlaybackRate rq opts w) =
           Some (case rq of Explicit r \<Rightarrow> r
                 | _ \<Rightarrow> directionalRate (config w) opts rq (playbackRate (heap w v)))"
    and "playbackRate (heap (setPlaybackRate rq opts w) v) =
           (case rq of Explicit r \<Rightarrow> r
                 | _ \<Rightarrow> directionalRate (config w) opts rq (playbackRate (heap w v)))"
    and "currentVideo (setPlaybackRate rq opts w) = Some v"
    and "config (setPlaybackRate rq opts w) = config w"
  using assms
  by (simp_all add: setPlaybackRate_def Let_def log_msg_def showSpeedToast_def
      updateRateDisplay_eq savePlaybackRate_def assign_playbackRate_eq
      split: rate_request.splits)

lemma setPlaybackRate_none:
  assumes "currentVideo_or_find w = None"
  shows "setPlaybackRate rq opts w = w\<lparr>console := console w @ [NoVideoFound]\<rparr>"
  using assms by (simp add: setPlaybackRate_def log_msg_def)

lemma currentVideo_or_find_same:
  assumes "currentVideo w' = currentVideo w" "heap w' = heap w" "doc w' = doc w"
  shows "currentVideo_or_find w' = currentVideo_or_find w"
  using assms by (auto simp: currentVideo_or_find_def split: option.splits)

lemma currentVideo_or_find_cached:
  "currentVideo w = Some v \<Longrightarrow> currentVideo_or_find w = Some v"
  by (simp add: currentVideo_or_find_def)

text \<open>
  Repeating a directional command on a page with a video is the iteration of the rate
  arithmetic on the element's rate; each result is also the persisted rate.
\<close>

lemma setPlaybackRate_iterate:
  assumes "currentVideo_or_find w = Some v" "rq = Increase \<or> rq = Decrease"
  shows "currentVideo ((setPlaybackRate rq opts ^^ Suc n) w) = Some v \<and>
         config ((setPlaybackRate rq opts ^^ Suc n) w) = config w \<and>
         playbackRate (heap ((setPlaybackRate rq opts ^^ Suc n) w) v) =
           (directionalRate (config w) opts rq ^^ Suc n) (playbackRate (heap w v)) \<and>
         udemy_playback_rate ((setPlaybackRate rq opts ^^ Suc n) w) =
           Some ((directionalRate (config w) opts rq ^^ Suc n) (playbackRate (heap w v)))"
proof (induction n)
  case 0
  show ?case
    using assms setPlaybackRate_found [OF assms(1), of rq opts] by auto
next
  case (Suc n)
  define w' where "w' = (setPlaybackRate rq opts ^^ Suc n) w"
  have f: "currentVideo_or_find w' = Some v"
    using Suc by (simp add: w'_def currentVideo_or_find_def)
  have c: "config w' = config w" using Suc by (simp add: w'_def)
  have p: "playbackRate (heap w' v) =
      (directionalRate (config w) opts rq ^^ Suc n) (playbackRate (heap w v))"
    using Suc by (simp add: w'_def)
  have e: "(setPlaybackRate rq opts ^^ Suc (Suc n)) w = setPlaybackRate rq opts w'"
    by (simp add: w'_def)
  show ?case
    unfolding e using assms(2) setPlaybackRate_found [OF f, of rq opts] c p by auto
qed

lemma keydown_fine_increase:
  "keydown (shift_key ''ArrowRight'') = setPlaybackRate Increase \<lparr>coarse = False, wrap = True\<rparr>"
  by (rule ext) (simp add: keydown_def keydown_calls_def shift_key_def)

lemma parseInt_9: "parseInt ''9'' = Some 9"
  by (simp add: parseInt_def is_white_space_def is_digit_def digits_value_def digit_value_def)

lemma keydown_calls_Digit9:
  "keydown_calls (shift_key ''Digit9'') = [(Explicit 3, no_options)]"
  by (simp add: keydown_calls_def shift_key_def parseInt_9 speedMap_def)

lemma keydown_Digit9:
  "keydown (shift_key ''Digit9'') w = setPlaybackRate (Explicit 3) no_options w"
  by (simp add: keydown_def keydown_calls_Digit9)

text \<open>The keyboard handler makes at most one call, of one of five shapes.\<close>

lemma speedMap_nth_mem:
  assumes "1 \<le> num" "num \<le> 9"
  shows "speedMap ! nat (num - 1) \<in> set speedMap"
proof -
  have "nat (num - 1) < length speedMap" using assms by (simp add: speedMap_def)
  then show ?thesis by (rule nth_mem)
qed

lemma digit_call_cases:
  "(case parseInt s of
      None \<Rightarrow> []
    | Some num \<Rightarrow>
        if 1 \<le> num \<and> num \<le> 9
        then (let speed = speedMap ! nat (num - 1) in
              if speed \<noteq> 0 then [(Explicit speed, no_options)] else [])
        else []) = [] \<or>
   (\<exists>r\<in>set speedMap.
     (case parseInt s of
      None \<Rightarrow> []
    | Some num \<Rightarrow>
        if 1 \<le> num \<and> num \<le> 9
        then (let speed = speedMap ! nat (num - 1) in
              if speed \<noteq> 0 then [(Explicit speed, no_options)] else [])
        else []) = [(Explicit r, no_options)])"
  using speedMap_nth_mem by (cases "parseInt s") (auto simp: Let_def)

lemma keydown_calls_shape:
  "keydown_calls event = [] \<or>
   keydown_calls event = [(Increase, \<lparr>coarse = False, wrap = True\<rparr>)] \<or>
   keydown_calls event = [(Decrease, \<lparr>coarse = False, wrap = True\<rparr>)] \<or>
   keydown_calls event = [(Increase, \<lparr>coarse = True, wrap = False\<rparr>)] \<or>
   keydown_calls event = [(Decrease, \<lparr>coarse = True, wrap = False\<rparr>)] \<or>
   (\<exists>r\<in>set speedMap. keydown_calls event = [(Explicit r, no_options)])"
proof (cases "shiftKey event \<and> take 5 (code event) = ''Digit'' \<and> \<not> ctrlKey event \<and> \<not> altKey event")
  case True
  then have a: "code event \<noteq> ''ArrowRight''" "code event \<noteq> ''ArrowLeft''" by auto
  define d where "d = (case parseInt (drop 5 (code event)) of
      None \<Rightarrow> []
    | Some num \<Rightarrow>
        if 1 \<le> num \<and> num \<le> 9
        then (let speed = speedMap ! nat (num - 1) in
              if speed \<noteq> 0 then [(Explicit speed, no_options)] else [])
        else [])"
  have dc: "d = [] \<or> (\<exists>r\<in>set speedMap. d = [(Explicit r, no_options)])"
    unfolding d_def by (rule digit_call_cases)
  have "keydown_calls event = [] \<or> keydown_calls event = d"
    using True a unfolding keydown_calls_def d_def by simp
  then show ?thesis using dc by auto
next
  case False
  then show ?thesis unfolding keydown_calls_def by auto
qed


text \<open>The popup's \<^verbatim>\<open>setRate\<close>: what it stores, shows and makes the page play.\<close>

lemma setRate_stored:
  "udemy_playback_rate (setRate r w) =
     Some (round2 (max (minRate (currentConfig w)) (min (maxRate (currentConfig w)) r)))"
  by (cases "currentVideo_or_find
        (w\<lparr>udemy_playback_rate :=
             Some (round2 (max (minRate (currentConfig w)) (min (maxRate (currentConfig w)) r))),
           currentRate :=
             round2 (max (minRate (currentConfig w)) (min (maxRate (currentConfig w)) r))\<rparr>)")
     (simp_all add: setRate_def Let_def sendMessage_def onMessage_def updateSpeedDisplay_def
        setPlaybackRate_none setPlaybackRate_found)

lemma setRate_applied:
  assumes "tab_on_udemy w" "currentVideo_or_find w = Some v"
  shows "playbackRate (heap (setRate r w) v) =
     round2 (max (minRate (currentConfig w)) (min (maxRate (currentConfig w)) r))"
proof -
  define w2 where "w2 = w\<lparr>udemy_playback_rate :=
             Some (round2 (max (minRate (currentConfig w)) (min (maxRate (currentConfig w)) r))),
           currentRate :=
             round2 (max (minRate (currentConfig w)) (min (maxRate (currentConfig w)) r))\<rparr>"
  have f: "currentVideo_or_find w2 = Some v"
    using assms(2) by (simp add: w2_def currentVideo_or_find_def split: option.splits)
  have "setRate r w = setPlaybackRate (Explicit (round2 (max (minRate (currentConfig w))
          (min (maxRate (currentConfig w)) r)))) no_options w2"
    using assms(1) by (simp add: setRate_def Let_def sendMessage_def onMessage_def
        updateSpeedDisplay_def w2_def)
  then show ?thesis using setPlaybackRate_found(2) [OF f] by simp
qed

lemma setRate_popup_fields:
  "currentRate (setRate r w) =
     round2 (max (minRate (currentConfig w)) (min (maxRate (currentConfig w)) r))"
  "currentConfig (setRate r w) = currentConfig w"
  by (simp_all add: setRate_def Let_def sendMessage_def onMessage_def updateSpeedDisplay_def
      setPlaybackRate_def log_msg_def showSpeedToast_def updateRateDisplay_eq
      savePlaybackRate_def assign_playbackRate_eq split: option.splits)

lemma IncreaseBtn_step:
  "currentConfig (popup_event IncreaseBtn w) = currentConfig w"
  "currentRate (popup_event IncreaseBtn w) = increaseBtn_rate (currentConfig w) (currentRate w)"
  "udemy_playback_rate (popup_event IncreaseBtn w) =
     Some (increaseBtn_rate (currentConfig w) (currentRate w))"
  by (simp_all add: popup_event_def setRate_popup_fields setRate_stored increaseBtn_rate_def)

lemma IncreaseBtn_iterate:
  "currentConfig ((popup_event IncreaseBtn ^^ Suc n) w) = currentConfig w \<and>
   currentRate ((popup_event IncreaseBtn ^^ Suc n) w) =
     (increaseBtn_rate (currentConfig w) ^^ Suc n) (currentRate w) \<and>
   udemy_playback_rate ((popup_event IncreaseBtn ^^ Suc n) w) =
     Some ((increaseBtn_rate (currentConfig w) ^^ Suc n) (currentRate w))"
proof (induction n)
  case 0
  show ?case by (simp add: IncreaseBtn_step)
next
  case (Suc n)
  define w' where "w' = (popup_event IncreaseBtn ^^ Suc n) w"
  have e: "(popup_event IncreaseBtn ^^ Suc (Suc n)) w = popup_event IncreaseBtn w'"
    by (simp add: w'_def)
  have c: "currentConfig w' = currentConfig w" using Suc by (simp add: w'_def)
  have p: "currentRate w' = (increaseBtn_rate (currentConfig w) ^^ Suc n) (currentRate w)"
    using Suc by (simp add: w'_def)
  show ?case unfolding e IncreaseBtn_step c p by simp
qed

lemma fresh_world_facts:
  "currentVideo_or_find fresh_world = Some 0"
  "currentVideo fresh_world = None"
  "config fresh_world = DEFAULT_CONFIG"
  "currentConfig fresh_world = DEFAULT_CONFIG"
  "playbackRate (heap fresh_world 0) = 1"
  "currentRate fresh_world = 1"
  "tab_on_udemy fresh_world"
  "console fresh_world = []"
  by (simp_all add: fresh_world_def currentVideo_or_find_def findVideoElement_def
      querySelector_def plain_video_def)

text \<open>The locator.\<close>

lemma findVideoElement_None: "(findVideoElement h videos = None) = (videos = [])"
  by (auto simp: findVideoElement_def querySelector_def find_None_iff
      split: option.splits list.splits)

lemma find_Ex: "\<exists>m\<in>set xs. P m \<Longrightarrow> \<exists>r\<in>set xs. find P xs = Some r \<and> P r"
  by (induction xs) auto

lemma two_decimalI: "x = fl (of_int k / 100) \<Longrightarrow> two_decimal x"
  unfolding two_decimal_def by blast

lemma speedMap_two_decimal: "list_all two_decimal speedMap"
proof -
  have "two_decimal (1 / 2)" by (rule two_decimalI [of _ 50]) (simp add: fl_eval num_eval)
  moreover have "two_decimal (3 / 4)"
    by (rule two_decimalI [of _ 75]) (simp add: fl_eval num_eval)
  moreover have "two_decimal 1" by (rule two_decimalI [of _ 100]) (simp add: fl_eval num_eval)
  moreover have "two_decimal (5 / 4)"
    by (rule two_decimalI [of _ 125]) (simp add: fl_eval num_eval)
  moreover have "two_decimal (3 / 2)"
    by (rule two_decimalI [of _ 150]) (simp add: fl_eval num_eval)
  moreover have "two_decimal (7 / 4)"
    by (rule two_decimalI [of _ 175]) (simp add: fl_eval num_eval)
  moreover have "two_decimal 2" by (rule two_decimalI [of _ 200]) (simp add: fl_eval num_eval)
  moreover have "two_decimal (5 / 2)"
    by (rule two_decimalI [of _ 250]) (simp add: fl_eval num_eval)
  moreover have "two_decimal 3" by (rule two_decimalI [of _ 300]) (simp add: fl_eval num_eval)
  ultimately show ?thesis by (simp add: speedMap_def)
qed

text \<open>Whatever a key press or a control of the popup persists is a two-decimal value.\<close>

lemma setPlaybackRate_stored_two_decimal:
  assumes "rq \<in> {Increase, Decrease} \<or> (\<exists>r\<in>set speedMap. rq = Explicit r)"
  shows "udemy_playback_rate (setPlaybackRate rq opts w) = udemy_playback_rate w \<or>
         (\<exists>r. udemy_playback_rate (setPlaybackRate rq opts w) = Some r \<and> two_decimal r)"
proof (cases "currentVideo_or_find w")
  case None
  then show ?thesis by (simp add: setPlaybackRate_none)
next
  case (Some v)
  have d: "two_decimal (directionalRate (config w) opts rq (playbackRate (heap w v)))"
    unfolding directionalRate_def Let_def by (rule round2_two_decimal)
  have e: "\<And>r. r \<in> set speedMap \<Longrightarrow> two_decimal r"
    using speedMap_two_decimal by (simp add: list_all_iff)
  show ?thesis
    using assms d e unfolding setPlaybackRate_found(1) [OF Some]
    by (auto split: rate_request.splits)
qed

lemma keydown_stored_two_decimal:
  "udemy_playback_rate (keydown event w) = udemy_playback_rate w \<or>
   (\<exists>r. udemy_playback_rate (keydown event w) = Some r \<and> two_decimal r)"
proof -
  consider "keydown_calls event = []"
    | rq opts where "keydown_calls event = [(rq, opts)]"
        "rq \<in> {Increase, Decrease} \<or> (\<exists>r\<in>set speedMap. rq = Explicit r)"
    using keydown_calls_shape [of event] by auto
  then show ?thesis
  proof cases
    case 1
    then show ?thesis by (simp add: keydown_def)
  next
    case 2
    have "keydown event w = setPlaybackRate rq opts w" using 2(1) by (simp add: keydown_def)
    then show ?thesis using setPlaybackRate_stored_two_decimal [OF 2(2)] by simp
  qed
qed

lemma saveConfig_stored: "udemy_playback_rate (saveConfig w) = udemy_playback_rate w"
  by (simp add: saveConfig_def sendMessage_def onMessage_def loadConfig_def)

lemma popup_event_stored_two_decimal:
  "udemy_playback_rate (popup_event e w) = udemy_playback_rate w \<or>
   (\<exists>r. udemy_playback_rate (popup_event e w) = Some r \<and> two_decimal r)"
  by (cases e)
    (simp_all add: popup_event_def setRate_stored round2_two_decimal saveConfig_stored
      updateSpeedDisplay_def)

lemma preset_keys:
  "map (\<lambda>c. keydown_calls (shift_key (''Digit'' @ [c]))) ''123456789'' =
   map (\<lambda>r. [(Explicit r, no_options)]) speedMap"
  by (simp add: keydown_calls_def shift_key_def parseInt_def is_white_space_def is_digit_def
      digits_value_def digit_value_def speedMap_def Let_def)

section \<open>The claims\<close>

subsection \<open>C1: explicit-rate requests\<close>

text \<open>
  Claim C1, as the code has it. An explicit rate given to the popup's \<^verbatim>\<open>setRate\<close>
  (slider commit, preset button, stepper) is clamped to the popup's bounds and then
  rounded to two decimals: that value is persisted, and it is the rate the video plays
  at when the popup's tab shows a lesson with a video. The content script applies and
  persists an explicit rate as it receives it; for a rate within the content script's
  bounds this is the clamped rate. A \<^verbatim>\<open>SET_RATE\<close> message is such an explicit request, and
  so is each preset key: Shift+1 to Shift+9 request the nine rates of the speed table.
\<close>

theorem C1_explicit_rate:
  "udemy_playback_rate (setRate r w) =
     Some (round2 (max (minRate (currentConfig w)) (min (maxRate (currentConfig w)) r))) \<and>
   (tab_on_udemy w \<and> currentVideo_or_find w = Some v \<longrightarrow>
      playbackRate (heap (setRate r w) v) =
        round2 (max (minRate (currentConfig w)) (min (maxRate (currentConfig w)) r))) \<and>
   (currentVideo_or_find w = Some v \<and> minRate (config w) \<le> r \<and> r \<le> maxRate (config w) \<longrightarrow>
      playbackRate (heap (setPlaybackRate (Explicit r) opts w) v) =
        max (minRate (config w)) (min (maxRate (config w)) r) \<and>
      udemy_playback_rate (setPlaybackRate (Explicit r) opts w) =
        Some (max (minRate (config w)) (min (maxRate (config w)) r))) \<and>
   onMessage (SET_RATE r) w = setPlaybackRate (Explicit r) no_options w \<and>
   map (\<lambda>c. keydown_calls (shift_key (''Digit'' @ [c]))) ''123456789'' =
     map (\<lambda>r. [(Explicit r, no_options)]) speedMap"
proof (intro conjI impI)
  show "onMessage (SET_RATE r) w = setPlaybackRate (Explicit r) no_options w"
    by (simp add: onMessage_def)
  show "map (\<lambda>c. keydown_calls (shift_key (''Digit'' @ [c]))) ''123456789'' =
     map (\<lambda>r. [(Explicit r, no_options)]) speedMap"
    by (rule preset_keys)
  show "udemy_playback_rate (setRate r w) =
     Some (round2 (max (minRate (currentConfig w)) (min (maxRate (currentConfig w)) r)))"
    by (rule setRate_stored)
next
  assume "tab_on_udemy w \<and> currentVideo_or_find w = Some v"
  then show "playbackRate (heap (setRate r w) v) =
        round2 (max (minRate (currentConfig w)) (min (maxRate (currentConfig w)) r))"
    by (simp add: setRate_applied)
next
  assume a: "currentVideo_or_find w = Some v \<and> minRate (config w) \<le> r \<and> r \<le> maxRate (config w)"
  then have c: "max (minRate (config w)) (min (maxRate (config w)) r) = r" by simp
  show "playbackRate (heap (setPlaybackRate (Explicit r) opts w) v) =
        max (minRate (config w)) (min (maxRate (config w)) r)"
    unfolding c using a setPlaybackRate_found(2) [of w v "Explicit r" opts] by simp
  show "udemy_playback_rate (setPlaybackRate (Explicit r) opts w) =
        Some (max (minRate (config w)) (min (maxRate (config w)) r))"
    unfolding c using a setPlaybackRate_found(1) [of w v "Explicit r" opts] by simp
qed

text \<open>
  The theorem at the preset \<open>1.75\<close> on the fresh lesson page: through the popup and
  through the content script the video plays at \<open>1.75\<close> and \<open>1.75\<close> is persisted.
\<close>

theorem C1_explicit_rate_witness:
  "tab_on_udemy fresh_world \<and> currentVideo_or_find fresh_world = Some 0 \<and>
   minRate (config fresh_world) \<le> 7 / 4 \<and> 7 / 4 \<le> maxRate (config fresh_world) \<and>
   udemy_playback_rate (setRate (7 / 4) fresh_world) = Some (7 / 4) \<and>
   playbackRate (heap (setRate (7 / 4) fresh_world) 0) = 7 / 4 \<and>
   playbackRate (heap (setPlaybackRate (Explicit (7 / 4)) no_options fresh_world) 0) = 7 / 4 \<and>
   udemy_playback_rate (setPlaybackRate (Explicit (7 / 4)) no_options fresh_world) = Some (7 / 4)"
proof -
  have h1: "tab_on_udemy fresh_world" by (rule fresh_world_facts)
  have h2: "currentVideo_or_find fresh_world = Some 0" by (rule fresh_world_facts)
  have h3: "minRate (config fresh_world) \<le> 7 / 4" "7 / 4 \<le> maxRate (config fresh_world)"
    by (simp_all add: fresh_world_facts DEFAULT_CONFIG_fields)
  have e1: "round2 (max (minRate (currentConfig fresh_world))
      (min (maxRate (currentConfig fresh_world)) (7 / 4))) = 7 / 4"
    by (simp add: fresh_world_facts DEFAULT_CONFIG_fields num_eval fl_eval)
  have e2: "max (minRate (config fresh_world)) (min (maxRate (config fresh_world)) (7 / 4)) = 7 / 4"
    by (simp add: fresh_world_facts DEFAULT_CONFIG_fields)
  note t = C1_explicit_rate [of "7 / 4" fresh_world 0 no_options, unfolded e1 e2]
  have a: "udemy_playback_rate (setRate (7 / 4) fresh_world) = Some (7 / 4)"
    by (rule t [THEN conjunct1])
  have b: "playbackRate (heap (setRate (7 / 4) fresh_world) 0) = 7 / 4"
    using t [THEN conjunct2, THEN conjunct1] h1 h2 by blast
  have c: "playbackRate (heap (setPlaybackRate (Explicit (7 / 4)) no_options fresh_world) 0) = 7 / 4 \<and>
      udemy_playback_rate (setPlaybackRate (Explicit (7 / 4)) no_options fresh_world) = Some (7 / 4)"
    using t [THEN conjunct2, THEN conjunct2, THEN conjunct1] h2 h3 by blast
  show ?thesis using h1 h2 h3 a b c by blast
qed

text \<open>
  The claim as worded fails in two ways. The popup rounds after clamping: \<^verbatim>\<open>setRate(1.234)\<close>
  persists \<open>1.23\<close>, not the clamped \<open>1.234\<close>. The content script does not clamp an
  explicit rate: with \<open>maxRate = 2\<close>, Shift+9 persists the preset \<open>3\<close>, not \<open>2\<close>.
\<close>

theorem C1_counterexample:
  "udemy_playback_rate (setRate (fl (1234 / 1000)) fresh_world) \<noteq>
     Some (max (minRate (currentConfig fresh_world))
            (min (maxRate (currentConfig fresh_world)) (fl (1234 / 1000)))) \<and>
   udemy_playback_rate
     (keydown (shift_key ''Digit9'') (fresh_world\<lparr>config := DEFAULT_CONFIG\<lparr>maxRate := 2\<rparr>\<rparr>)) \<noteq>
     Some (max (minRate (DEFAULT_CONFIG\<lparr>maxRate := 2\<rparr>))
            (min (maxRate (DEFAULT_CONFIG\<lparr>maxRate := 2\<rparr>)) 3))"
proof
  show "udemy_playback_rate (setRate (fl (1234 / 1000)) fresh_world) \<noteq>
     Some (max (minRate (currentConfig fresh_world))
            (min (maxRate (currentConfig fresh_world)) (fl (1234 / 1000))))"
    by (simp add: setRate_stored fresh_world_facts DEFAULT_CONFIG_fields num_eval fl_eval)
  have f: "currentVideo_or_find (fresh_world\<lparr>config := DEFAULT_CONFIG\<lparr>maxRate := 2\<rparr>\<rparr>) = Some 0"
    using currentVideo_or_find_same [of "fresh_world\<lparr>config := DEFAULT_CONFIG\<lparr>maxRate := 2\<rparr>\<rparr>"
        fresh_world] fresh_world_facts(1) by simp
  show "udemy_playback_rate
     (keydown (shift_key ''Digit9'') (fresh_world\<lparr>config := DEFAULT_CONFIG\<lparr>maxRate := 2\<rparr>\<rparr>)) \<noteq>
     Some (max (minRate (DEFAULT_CONFIG\<lparr>maxRate := 2\<rparr>))
            (min (maxRate (DEFAULT_CONFIG\<lparr>maxRate := 2\<rparr>)) 3))"
    unfolding keydown_Digit9 setPlaybackRate_found(1) [OF f]
    by (simp add: DEFAULT_CONFIG_fields)
qed

subsection \<open>C2: the persisted rate stays within the bounds\<close>

text \<open>
  Claim C2: after every rate-change command the persisted rate lies within the current
  configuration's bounds. The code breaks this for a preset key. On the fresh lesson page
  the user sets the maximum speed to \<open>2\<close> in the popup's settings, which the content
  script loads; Shift+9 then makes the video play at \<open>3\<close> and persists \<open>3\<close>, while the
  content script's \<open>maxRate\<close> is \<open>2\<close>. The directional branch of the same function and the
  popup's \<^verbatim>\<open>setRate\<close> both clamp.
\<close>

theorem C2_preset_escapes_bounds:
  "maxRate (config (popup_event (MaxRateChange 2) fresh_world)) = 2 \<and>
   maxRate (config
     (keydown (shift_key ''Digit9'') (popup_event (MaxRateChange 2) fresh_world))) = 2 \<and>
   udemy_playback_rate
     (keydown (shift_key ''Digit9'') (popup_event (MaxRateChange 2) fresh_world)) = Some 3 \<and>
   playbackRate (heap
     (keydown (shift_key ''Digit9'') (popup_event (MaxRateChange 2) fresh_world)) 0) = 3"
proof -
  define w1 where "w1 = popup_event (MaxRateChange 2) fresh_world"
  have c: "config w1 = DEFAULT_CONFIG\<lparr>maxRate := 2\<rparr>"
    by (simp add: w1_def popup_event_def saveConfig_def sendMessage_def onMessage_def
        loadConfig_def fresh_world_def)
  have "currentVideo w1 = None" "heap w1 = heap fresh_world" "doc w1 = doc fresh_world"
    by (simp_all add: w1_def popup_event_def saveConfig_def sendMessage_def onMessage_def
        loadConfig_def fresh_world_def)
  then have f: "currentVideo_or_find w1 = Some 0"
    using currentVideo_or_find_same [of w1 fresh_world] fresh_world_facts(1,2) by simp
  show ?thesis
    unfolding w1_def [symmetric] keydown_Digit9 setPlaybackRate_found [OF f] c by simp
qed

subsection \<open>C3: saturation\<close>




subsection \<open>C4: wrap\<close>

text \<open>
  Claim C4 (wrap law). For a current rate within the bounds and wrap on: if the stepped
  rate \<^verbatim>\<open>currentRate + increment\<close> exceeds \<open>maxRate\<close>, an increase yields \<open>minRate\<close> rounded
  to two decimals; if \<^verbatim>\<open>currentRate - increment\<close> is below \<open>minRate\<close>, a decrease yields
  \<open>maxRate\<close> rounded to two decimals. The sum and the difference are the Numbers the code
  computes.
\<close>

theorem C4_wrap:
  assumes "minRate cfg \<le> cur" "cur \<le> maxRate cfg" "wrap opts"
  shows "(maxRate cfg < fadd cur (if coarse opts then coarseIncrement cfg else fineIncrement cfg)
            \<longrightarrow> directionalRate cfg opts Increase cur = round2 (minRate cfg)) \<and>
         (fsub cur (if coarse opts then coarseIncrement cfg else fineIncrement cfg) < minRate cfg
            \<longrightarrow> directionalRate cfg opts Decrease cur = round2 (maxRate cfg))"
  using assms by (auto simp: directionalRate_def Let_def)

text \<open>
  Scenario C of the specification with the keyboard's fine step: under the default
  configuration an increase with wrap at \<open>3.0\<close> yields \<open>0.5\<close>, and a decrease with wrap
  at \<open>0.5\<close> yields \<open>3.0\<close>.
\<close>

theorem C4_wrap_witness:
  "minRate DEFAULT_CONFIG \<le> 3 \<and> 3 \<le> maxRate DEFAULT_CONFIG \<and>
   wrap \<lparr>coarse = False, wrap = True\<rparr> \<and>
   maxRate DEFAULT_CONFIG < fadd 3 (fineIncrement DEFAULT_CONFIG) \<and>
   directionalRate DEFAULT_CONFIG \<lparr>coarse = False, wrap = True\<rparr> Increase 3 = 1 / 2 \<and>
   minRate DEFAULT_CONFIG \<le> 1 / 2 \<and> 1 / 2 \<le> maxRate DEFAULT_CONFIG \<and>
   fsub (1 / 2) (fineIncrement DEFAULT_CONFIG) < minRate DEFAULT_CONFIG \<and>
   directionalRate DEFAULT_CONFIG \<lparr>coarse = False, wrap = True\<rparr> Decrease (1 / 2) = 3"
proof -
  have h1: "minRate DEFAULT_CONFIG \<le> 3" "3 \<le> maxRate DEFAULT_CONFIG"
    by (simp_all add: DEFAULT_CONFIG_fields)
  have g1: "minRate DEFAULT_CONFIG \<le> 1 / 2" "1 / 2 \<le> maxRate DEFAULT_CONFIG"
    by (simp_all add: DEFAULT_CONFIG_fields)
  have h3: "wrap \<lparr>coarse = False, wrap = True\<rparr>" by simp
  have h4: "maxRate DEFAULT_CONFIG < fadd 3 (fineIncrement DEFAULT_CONFIG)"
    by (simp add: DEFAULT_CONFIG_fields num_eval fl_eval)
  have g4: "fsub (1 / 2) (fineIncrement DEFAULT_CONFIG) < minRate DEFAULT_CONFIG"
    by (simp add: DEFAULT_CONFIG_fields num_eval fl_eval)
  have r: "round2 (minRate DEFAULT_CONFIG) = 1 / 2" "round2 (maxRate DEFAULT_CONFIG) = 3"
    by (simp_all add: DEFAULT_CONFIG_fields round2_bounds_default)
  have c: "(if coarse \<lparr>coarse = False, wrap = True\<rparr> then coarseIncrement DEFAULT_CONFIG
            else fineIncrement DEFAULT_CONFIG) = fineIncrement DEFAULT_CONFIG"
    by simp
  have a: "directionalRate DEFAULT_CONFIG \<lparr>coarse = False, wrap = True\<rparr> Increase 3 = 1 / 2"
    using C4_wrap [OF h1 h3, unfolded c r, THEN conjunct1] h4 by blast
  have b: "directionalRate DEFAULT_CONFIG \<lparr>coarse = False, wrap = True\<rparr> Decrease (1 / 2) = 3"
    using C4_wrap [OF g1 h3, unfolded c r, THEN conjunct2] g4 by blast
  show ?thesis using h1 g1 h3 h4 g4 a b by blast
qed

subsection \<open>C5: two decimals and no drift\<close>

text \<open>
  Claim C5. Every rate the rate arithmetic produces is a two-decimal value: the result of
  a directional command, the rate the popup's \<^verbatim>\<open>setRate\<close> persists, and each keyboard
  preset; so whatever a key press on the page or a control of the popup persists is a
  two-decimal value. Starting from rate \<open>1.0\<close> under the default configuration, ten successive fine
  increases of \<open>0.05\<close> yield exactly \<open>1.5\<close>: as a computation on the rate, as ten
  Shift+ArrowRight key presses on the lesson page (the rate of the video and the
  persisted rate), and as ten clicks on the popup's increase button.
\<close>

theorem C5_two_decimals:
  "two_decimal (directionalRate cfg opts rq cur) \<and>
   (\<exists>r. udemy_playback_rate (setRate x w) = Some r \<and> two_decimal r) \<and>
   list_all two_decimal speedMap \<and>
   (udemy_playback_rate (keydown event w) = udemy_playback_rate w \<or>
    (\<exists>r. udemy_playback_rate (keydown event w) = Some r \<and> two_decimal r)) \<and>
   (udemy_playback_rate (popup_event e w) = udemy_playback_rate w \<or>
    (\<exists>r. udemy_playback_rate (popup_event e w) = Some r \<and> two_decimal r)) \<and>
   (directionalRate DEFAULT_CONFIG \<lparr>coarse = False, wrap = True\<rparr> Increase ^^ 10) 1 = 3 / 2 \<and>
   udemy_playback_rate ((keydown (shift_key ''ArrowRight'') ^^ 10) fresh_world) = Some (3 / 2) \<and>
   playbackRate (heap ((keydown (shift_key ''ArrowRight'') ^^ 10) fresh_world) 0) = 3 / 2 \<and>
   udemy_playback_rate ((popup_event IncreaseBtn ^^ 10) fresh_world) = Some (3 / 2)"
proof (intro conjI)
  have k: "playbackRate (heap
        ((setPlaybackRate Increase \<lparr>coarse = False, wrap = True\<rparr> ^^ 10) fresh_world) 0) =
      (directionalRate DEFAULT_CONFIG \<lparr>coarse = False, wrap = True\<rparr> Increase ^^ 10) 1"
    "udemy_playback_rate
        ((setPlaybackRate Increase \<lparr>coarse = False, wrap = True\<rparr> ^^ 10) fresh_world) =
      Some ((directionalRate DEFAULT_CONFIG \<lparr>coarse = False, wrap = True\<rparr> Increase ^^ 10) 1)"
    using setPlaybackRate_iterate [OF fresh_world_facts(1), where rq = Increase
        and opts = "\<lparr>coarse = False, wrap = True\<rparr>" and n = 9]
    by (simp_all only: Suc_numeral fresh_world_facts, simp_all)
  have p: "udemy_playback_rate ((popup_event IncreaseBtn ^^ 10) fresh_world) =
      Some ((increaseBtn_rate DEFAULT_CONFIG ^^ 10) 1)"
    using IncreaseBtn_iterate [where n = 9 and w = fresh_world]
    by (simp only: Suc_numeral fresh_world_facts, simp)
  show "two_decimal (directionalRate cfg opts rq cur)"
    unfolding directionalRate_def Let_def by (rule round2_two_decimal)
  show "\<exists>r. udemy_playback_rate (setRate x w) = Some r \<and> two_decimal r"
    unfolding setRate_stored by (simp add: round2_two_decimal)
  show "list_all two_decimal speedMap" by (rule speedMap_two_decimal)
  show "udemy_playback_rate (keydown event w) = udemy_playback_rate w \<or>
    (\<exists>r. udemy_playback_rate (keydown event w) = Some r \<and> two_decimal r)"
    by (rule keydown_stored_two_decimal)
  show "udemy_playback_rate (popup_event e w) = udemy_playback_rate w \<or>
    (\<exists>r. udemy_playback_rate (popup_event e w) = Some r \<and> two_decimal r)"
    by (rule popup_event_stored_two_decimal)
  show "(directionalRate DEFAULT_CONFIG \<lparr>coarse = False, wrap = True\<rparr> Increase ^^ 10) 1 = 3 / 2"
    by (rule ten_fine_increases)
  show "udemy_playback_rate ((keydown (shift_key ''ArrowRight'') ^^ 10) fresh_world) = Some (3 / 2)"
    unfolding keydown_fine_increase k ten_fine_increases by (rule refl)
  show "playbackRate (heap ((keydown (shift_key ''ArrowRight'') ^^ 10) fresh_world) 0) = 3 / 2"
    unfolding keydown_fine_increase k ten_fine_increases by (rule refl)
  show "udemy_playback_rate ((popup_event IncreaseBtn ^^ 10) fresh_world) = Some (3 / 2)"
    unfolding p ten_popup_increases by (rule refl)
qed

subsection \<open>C6: the video locator\<close>

text \<open>
  Claim C6. The locator tries its strategies in priority order and the first match wins.
  If some video in the document carries the Video.js class, the locator returns the
  first such video in tree order, whatever unmarked videos the document also holds. If
  none carries the class but some video sits in the player region, it returns the first
  of those; if neither applies but some video has \<^verbatim>\<open>preload="auto"\<close>, the first of
  those. If no selector matches, it returns the first video that shows activity (a
  non-zero ready state, a non-zero current time, or not paused), and the first video of
  the document when none does. It returns none exactly when the document has no video
  element.
\<close>

theorem C6_locator_priority:
  "((\<exists>m\<in>set videos. vjs_tech (h m)) \<longrightarrow>
      findVideoElement h videos = find (\<lambda>v. vjs_tech (h v)) videos \<and>
      (\<exists>r\<in>set videos. findVideoElement h videos = Some r \<and> vjs_tech (h r))) \<and>
   ((\<forall>m\<in>set videos. \<not> vjs_tech (h m)) \<and> (\<exists>m\<in>set videos. in_video_player (h m)) \<longrightarrow>
      findVideoElement h videos = find (\<lambda>v. in_video_player (h v)) videos) \<and>
   ((\<forall>m\<in>set videos. \<not> vjs_tech (h m) \<and> \<not> in_video_player (h m)) \<and>
    (\<exists>m\<in>set videos. preload_auto (h m)) \<longrightarrow>
      findVideoElement h videos = find (\<lambda>v. preload_auto (h v)) videos) \<and>
   ((\<forall>m\<in>set videos. \<not> vjs_tech (h m) \<and> \<not> in_video_player (h m) \<and> \<not> preload_auto (h m)) \<longrightarrow>
      findVideoElement h videos =
        (case find (\<lambda>v. 0 < readyState (h v) \<or> 0 < currentTime (h v) \<or> \<not> paused (h v)) videos of
           Some v \<Rightarrow> Some v
         | None \<Rightarrow> (case videos of [] \<Rightarrow> None | v # _ \<Rightarrow> Some v))) \<and>
   (findVideoElement h videos = None) = (videos = [])"
proof (intro conjI impI)
  assume a: "\<exists>m\<in>set videos. vjs_tech (h m)"
  from find_Ex [OF a] obtain r where r: "r \<in> set videos"
    "find (\<lambda>v. vjs_tech (h v)) videos = Some r" "vjs_tech (h r)" by blast
  show e: "findVideoElement h videos = find (\<lambda>v. vjs_tech (h v)) videos"
    using r(2) by (simp add: findVideoElement_def querySelector_def)
  show "\<exists>r\<in>set videos. findVideoElement h videos = Some r \<and> vjs_tech (h r)"
    using e r by auto
next
  assume a: "(\<forall>m\<in>set videos. \<not> vjs_tech (h m)) \<and> (\<exists>m\<in>set videos. in_video_player (h m))"
  then have n: "find (\<lambda>v. vjs_tech (h v)) videos = None" by (simp add: find_None_iff)
  from a find_Ex [of videos "\<lambda>v. in_video_player (h v)"] obtain r where
    "find (\<lambda>v. in_video_player (h v)) videos = Some r" by blast
  then show "findVideoElement h videos = find (\<lambda>v. in_video_player (h v)) videos"
    using n by (simp add: findVideoElement_def querySelector_def)
next
  assume a: "(\<forall>m\<in>set videos. \<not> vjs_tech (h m) \<and> \<not> in_video_player (h m)) \<and>
    (\<exists>m\<in>set videos. preload_auto (h m))"
  then have n: "find (\<lambda>v. vjs_tech (h v)) videos = None"
    "find (\<lambda>v. in_video_player (h v)) videos = None" by (simp_all add: find_None_iff)
  from a find_Ex [of videos "\<lambda>v. preload_auto (h v)"] obtain r where
    "find (\<lambda>v. preload_auto (h v)) videos = Some r" by blast
  then show "findVideoElement h videos = find (\<lambda>v. preload_auto (h v)) videos"
    using n by (simp add: findVideoElement_def querySelector_def)
next
  assume a: "\<forall>m\<in>set videos. \<not> vjs_tech (h m) \<and> \<not> in_video_player (h m) \<and> \<not> preload_auto (h m)"
  then have n: "find (\<lambda>v. vjs_tech (h v)) videos = None"
    "find (\<lambda>v. in_video_player (h v)) videos = None"
    "find (\<lambda>v. preload_auto (h v)) videos = None" by (simp_all add: find_None_iff)
  show "findVideoElement h videos =
        (case find (\<lambda>v. 0 < readyState (h v) \<or> 0 < currentTime (h v) \<or> \<not> paused (h v)) videos of
           Some v \<Rightarrow> Some v
         | None \<Rightarrow> (case videos of [] \<Rightarrow> None | v # _ \<Rightarrow> Some v))"
  proof (cases "length videos = 1")
    case True
    then obtain x where x: "videos = [x]" by (cases videos) auto
    show ?thesis using n unfolding x by (simp add: findVideoElement_def querySelector_def)
  next
    case False
    then show ?thesis using n by (simp add: findVideoElement_def querySelector_def)
  qed
next
  show "(findVideoElement h videos = None) = (videos = [])"
    by (rule findVideoElement_None)
qed

text \<open>
  Documents over the four sample videos. With all four the marked video wins, although
  the unmarked one comes first and is playing; without the marked one the video in the
  player region wins, then the one with \<^verbatim>\<open>preload="auto"\<close>, then the playing one. On a
  document without videos the locator returns none.
\<close>

theorem C6_locator_priority_witness:
  "\<not> vjs_tech (four_videos 0) \<and> vjs_tech (four_videos 3) \<and>
   findVideoElement four_videos [0, 1, 2, 3] = Some 3 \<and>
   findVideoElement four_videos [0, 1, 2] = Some 2 \<and>
   findVideoElement four_videos [0, 1] = Some 1 \<and>
   findVideoElement four_videos [0] = Some 0 \<and>
   findVideoElement four_videos [] = None"
proof -
  have h0: "\<not> vjs_tech (four_videos 0)" by (simp add: four_videos_def plain_video_def)
  have h3: "vjs_tech (four_videos 3)" by (simp add: four_videos_def plain_video_def)
  have a: "findVideoElement four_videos [0, 1, 2, 3] = Some 3"
    using C6_locator_priority [of "[0, 1, 2, 3]" four_videos, THEN conjunct1]
    by (simp add: four_videos_def plain_video_def)
  have b: "findVideoElement four_videos [0, 1, 2] = Some 2"
    using C6_locator_priority [of "[0, 1, 2]" four_videos, THEN conjunct2, THEN conjunct1]
    by (simp add: four_videos_def plain_video_def)
  have c: "findVideoElement four_videos [0, 1] = Some 1"
    using C6_locator_priority [of "[0, 1]" four_videos, THEN conjunct2, THEN conjunct2,
        THEN conjunct1]
    by (simp add: four_videos_def plain_video_def)
  have d: "findVideoElement four_videos [0] = Some 0"
    using C6_locator_priority [of "[0]" four_videos, THEN conjunct2, THEN conjunct2,
        THEN conjunct2, THEN conjunct1]
    by (simp add: four_videos_def plain_video_def)
  have e: "findVideoElement four_videos [] = None"
    using C6_locator_priority [of "[]" four_videos] by blast
  show ?thesis using h0 h3 a b c d e by blast
qed

subsection \<open>C7: no video found\<close>



subsection \<open>C8: rate changes of the host page are never persisted\<close>

text \<open>
  Claim C8. A \<^verbatim>\<open>ratechange\<close> event on a video leaves the whole state, and so the persisted
  rate, unchanged; an assignment to the element's playback rate (the host page's own
  speed control) does not touch the persisted rate; no event handler of the
  synchronizer writes the persisted rate. The persisted value only flows forward: after
  a readiness event on an attached video the element plays at the stored rate.
\<close>

theorem C8_ratechange_never_persists:
  "dispatch ratechange v w = w \<and>
   udemy_playback_rate (assign_playbackRate v r w) = udemy_playback_rate w \<and>
   udemy_playback_rate (dispatch ratechange v (assign_playbackRate v r w)) =
     udemy_playback_rate w \<and>
   udemy_playback_rate (dispatch ev v w) = udemy_playback_rate w \<and>
   (superlearnerAttached (heap w v) \<and> ev \<in> {loadedmetadata, loadeddata, canplay, play, playing}
      \<longrightarrow> playbackRate (heap (dispatch ev v w) v) = getStoredRate w)"
  by (simp add: dispatch_def ratechange_listener_id assign_playbackRate_eq
      applyStoredRate_fields)

text \<open>
  Scenario E of the specification: with \<open>1.35\<close> persisted and the host page having set
  the attached video back to its own rate \<open>1\<close>, the store still holds \<open>1.35\<close> and the
  next \<^verbatim>\<open>canplay\<close> event puts the video at \<open>1.35\<close>.
\<close>

theorem C8_ratechange_never_persists_witness:
  "superlearnerAttached (heap attached_world 0) \<and>
   canplay \<in> {loadedmetadata, loadeddata, canplay, play, playing} \<and>
   playbackRate (heap attached_world 0) = 1 \<and>
   udemy_playback_rate attached_world = Some (fl (27 / 20)) \<and>
   playbackRate (heap (dispatch canplay 0 attached_world) 0) = fl (27 / 20)"
proof -
  have h1: "superlearnerAttached (heap attached_world 0)"
    by (simp add: attached_world_def attachVideoListeners_def applyStoredRate_def
        assign_playbackRate_eq updateRateDisplay_eq log_msg_def Let_def)
  have h2: "canplay \<in> {loadedmetadata, loadeddata, canplay, play, playing}" by simp
  have h3: "playbackRate (heap attached_world 0) = 1"
    by (simp add: attached_world_def assign_playbackRate_eq)
  have h4: "udemy_playback_rate attached_world = Some (fl (27 / 20))"
    by (simp add: attached_world_def attachVideoListeners_def applyStoredRate_def
        assign_playbackRate_eq updateRateDisplay_eq log_msg_def Let_def)
  then have h5: "getStoredRate attached_world = fl (27 / 20)"
    by (simp add: getStoredRate_def)
  have "playbackRate (heap (dispatch canplay 0 attached_world) 0) = getStoredRate attached_world"
    using C8_ratechange_never_persists [of 0 attached_world _ canplay] h1 h2 by blast
  then show ?thesis using h1 h2 h3 h4 h5 by simp
qed

subsection \<open>C9: idempotence of the explicit set\<close>

text \<open>
  Claim C9. Setting the same explicit rate twice in succession stores the same value as
  setting it once, through the popup's \<^verbatim>\<open>setRate\<close> and through the content script's
  \<^verbatim>\<open>setPlaybackRate\<close>, for every rate, configuration and page.
\<close>

theorem C9_explicit_set_idempotent:
  "udemy_playback_rate (setRate r (setRate r w)) = udemy_playback_rate (setRate r w) \<and>
   udemy_playback_rate (setPlaybackRate (Explicit r) opts (setPlaybackRate (Explicit r) opts w)) =
     udemy_playback_rate (setPlaybackRate (Explicit r) opts w)"
proof
  show "udemy_playback_rate (setRate r (setRate r w)) = udemy_playback_rate (setRate r w)"
    by (simp only: setRate_stored setRate_popup_fields(2))
  show "udemy_playback_rate (setPlaybackRate (Explicit r) opts (setPlaybackRate (Explicit r) opts w)) =
     udemy_playback_rate (setPlaybackRate (Explicit r) opts w)"
  proof (cases "currentVideo_or_find w")
    case None
    define w1 where "w1 = w\<lparr>console := console w @ [NoVideoFound]\<rparr>"
    have e: "setPlaybackRate (Explicit r) opts w = w1"
      unfolding w1_def by (rule setPlaybackRate_none [OF None])
    have "currentVideo_or_find w1 = currentVideo_or_find w"
      by (rule currentVideo_or_find_same) (simp_all add: w1_def)
    then have n: "currentVideo_or_find w1 = None" using None by simp
    have "udemy_playback_rate (setPlaybackRate (Explicit r) opts w1) = udemy_playback_rate w1"
      unfolding setPlaybackRate_none [OF n] by simp
    then show ?thesis unfolding e .
  next
    case (Some v)
    have f: "currentVideo_or_find (setPlaybackRate (Explicit r) opts w) = Some v"
      using setPlaybackRate_found(3) [OF Some] by (rule currentVideo_or_find_cached)
    have a: "udemy_playback_rate (setPlaybackRate (Explicit r) opts w) = Some r"
      using setPlaybackRate_found(1) [OF Some, of "Explicit r" opts] by simp
    have b: "udemy_playback_rate
        (setPlaybackRate (Explicit r) opts (setPlaybackRate (Explicit r) opts w)) = Some r"
      using setPlaybackRate_found(1) [OF f, of "Explicit r" opts] by simp
    show ?thesis unfolding a b by (rule refl)
  qed
qed

subsection \<open>C10: the keyboard's wrap policy\<close>



end
